theory Spec2Isabelle
  imports Main "HOL-Library.AList"
begin

section \<open>JSON values as Python sees them\<close>

text \<open>
  Everything the application stores or receives is a value decoded by \<open>json.loads\<close> or
  built from string literals: \<open>None\<close>, a bool, a number, a \<open>str\<close>, a \<open>list\<close> or a
  \<open>dict\<close> with \<open>str\<close> keys. A \<open>dict\<close> is an association list read with \<open>map_of\<close> and
  written with \<open>AList.update\<close> (an existing key keeps its place, a new key goes to the
  end, as in Python); the decoder never produces a key twice. A JSON number is kept as an integer: the program only ever tests a
  number for being non-zero. A \<open>str\<close> is a list of code points below 256.
\<close>

datatype json =
    JNull
  | JBool bool
  | JNum int
  | JStr string
  | JArr "json list"
  | JObj "(string \<times> json) list"

text \<open>Python's truth value of an object, as \<open>if x:\<close> tests it.\<close>

fun truthy :: "json \<Rightarrow> bool" where
  "truthy JNull = False"
| "truthy (JBool b) = b"
| "truthy (JNum n) = (n \<noteq> 0)"
| "truthy (JStr s) = (s \<noteq> [])"
| "truthy (JArr xs) = (xs \<noteq> [])"
| "truthy (JObj kvs) = (kvs \<noteq> [])"

text \<open>\<open>d.get(k, dflt)\<close>; \<open>d.get(k)\<close> is \<open>dict_get d k JNull\<close>.\<close>

definition dict_get :: "(string \<times> json) list \<Rightarrow> string \<Rightarrow> json \<Rightarrow> json" where
  "dict_get d k dflt = (case map_of d k of None \<Rightarrow> dflt | Some v \<Rightarrow> v)"

text \<open>\<open>k in d\<close>.\<close>

definition dict_has :: "(string \<times> json) list \<Rightarrow> string \<Rightarrow> bool" where
  "dict_has d k = (map_of d k \<noteq> None)"

subsection \<open>\<open>str.lower\<close> and \<open>str.strip\<close>\<close>

text \<open>
  On code points below 256, \<open>lower\<close> moves \<open>A\<close>..\<open>Z\<close> and U+00C0..U+00DE (without the
  multiplication sign U+00D7) up by 32 and leaves the rest; \<open>strip\<close> removes from both ends
  the characters U+0009..U+000D, U+001C..U+0020, U+0085 and U+00A0.
\<close>

definition py_lower_char :: "char \<Rightarrow> char" where
  "py_lower_char c =
     (let n = (of_char c :: nat)
      in if (65 \<le> n \<and> n \<le> 90) \<or> (192 \<le> n \<and> n \<le> 222 \<and> n \<noteq> 215)
         then char_of (n + 32) else c)"

definition py_isspace :: "char \<Rightarrow> bool" where
  "py_isspace c =
     (let n = (of_char c :: nat)
      in (9 \<le> n \<and> n \<le> 13) \<or> (28 \<le> n \<and> n \<le> 32) \<or> n = 133 \<or> n = 160)"

definition py_lower :: "string \<Rightarrow> string" where
  "py_lower s = map py_lower_char s"

definition py_strip :: "string \<Rightarrow> string" where
  "py_strip s = rev (dropWhile py_isspace (rev (dropWhile py_isspace s)))"

section \<open>Session state\<close>

text \<open>
  \<open>st.session_state\<close> (lines 25-41 of \<open>app.py\<close>). The fields hold whatever the program
  assigns to them: \<open>thread_id\<close> is \<open>''\<close>, \<open>None\<close> or a value taken from a reply;
  \<open>messages\<close> and \<open>scorecard_state\<close> are a list and a dict at the start and whatever the
  history endpoint returned afterwards. \<open>pending_message\<close> is an attribute that exists
  only between a send and its processing (\<open>hasattr\<close> is \<open>\<noteq> None\<close>). The field \<open>ws\<close> is
  set to \<open>None\<close> and never read; it is left out.
\<close>

record session_state =
  current_page :: string
  job_title :: string
  thread_id :: json
  auth_token :: string
  messages :: json
  scorecard_state :: json
  is_loading :: bool
  pending_message :: "string option"

definition init_state :: session_state where
  "init_state =
     \<lparr> current_page = ''modal'', job_title = '''', thread_id = JStr '''',
       auth_token = '''', messages = JArr [], scorecard_state = JObj [],
       is_loading = False, pending_message = None \<rparr>"

subsection \<open>Exceptions\<close>

text \<open>
  A statement either completes or raises; what it had already stored in the session
  state stays stored, so both outcomes carry the state.
\<close>

datatype py_error = AttributeError | TypeError

datatype exec = Done session_state | Raised py_error session_state

fun state_of :: "exec \<Rightarrow> session_state" where
  "state_of (Done st) = st"
| "state_of (Raised e st) = st"

fun and_then :: "exec \<Rightarrow> (session_state \<Rightarrow> exec) \<Rightarrow> exec" where
  "and_then (Done st) f = f st"
| "and_then (Raised e st) f = Raised e st"

section \<open>Reconciling a reply (\<open>chat_page\<close>, lines 277-336)\<close>

definition sentinel :: string where
  "sentinel = ''connection established''"

definition placeholder :: json where
  "placeholder = JStr ''Response received''"

text \<open>
  The section names in the order of the seven \<open>if\<close> statements (lines 289-302, and the
  same seven again at lines 309-322).
\<close>

definition section_names :: "string list" where
  "section_names =
     [''outcomes'', ''culture'', ''boss_style'', ''situation'',
      ''requirements'', ''competencies'', ''mission'']"

text \<open>
  \<open>if data.get('thread_id'): st.session_state.thread_id = data['thread_id']\<close>
\<close>

definition update_thread_id :: "(string \<times> json) list \<Rightarrow> session_state \<Rightarrow> exec" where
  "update_thread_id d st =
     (if truthy (dict_get d ''thread_id'' JNull)
      then Done (st\<lparr>thread_id := dict_get d ''thread_id'' JNull\<rparr>)
      else Done st)"

text \<open>
  \<open>if data.get(name): st.session_state.scorecard_state[name] = data[name]\<close>.
  Item assignment with a \<open>str\<close> key raises \<open>TypeError\<close> on anything but a dict.
\<close>

definition set_section :: "(string \<times> json) list \<Rightarrow> string \<Rightarrow> session_state \<Rightarrow> exec" where
  "set_section d name st =
     (if truthy (dict_get d name JNull)
      then (case scorecard_state st of
              JObj sc \<Rightarrow>
                Done (st\<lparr>scorecard_state := JObj (AList.update name (dict_get d name JNull) sc)\<rparr>)
            | _ \<Rightarrow> Raised TypeError st)
      else Done st)"

definition update_sections :: "(string \<times> json) list \<Rightarrow> session_state \<Rightarrow> exec" where
  "update_sections d st =
     foldl (\<lambda>x name. and_then x (set_section d name)) (Done st) section_names"

text \<open>
  \<open>st.session_state.messages.append({'role': role, 'content': content})\<close>; only a list
  has \<open>append\<close>.
\<close>

definition chat_message :: "string \<Rightarrow> json \<Rightarrow> json" where
  "chat_message role content = JObj [(''role'', JStr role), (''content'', content)]"

definition append_message :: "json \<Rightarrow> session_state \<Rightarrow> exec" where
  "append_message m st =
     (case messages st of
        JArr ms \<Rightarrow> Done (st\<lparr>messages := JArr (ms @ [m])\<rparr>)
      | _ \<Rightarrow> Raised AttributeError st)"

text \<open>
  The body of \<open>if response:\<close>. \<open>response.get\<close> needs a dict, \<open>response['data'].get\<close>
  needs \<open>data\<close> to be a dict, \<open>content.lower()\<close> needs a \<open>str\<close>: otherwise
  \<open>AttributeError\<close>.
\<close>

definition handle_response :: "json \<Rightarrow> session_state \<Rightarrow> exec" where
  "handle_response response st =
     (if truthy response then
        (case response of
           JObj r \<Rightarrow>
             if dict_get r ''type'' JNull = JStr ''ai_message'' \<and> dict_has r ''data'' then
               (case dict_get r ''data'' JNull of
                  JObj d \<Rightarrow>
                    (case dict_get d ''content'' placeholder of
                       JStr content \<Rightarrow>
                         if py_strip (py_lower content) = sentinel then
                           and_then (update_thread_id d st) (update_sections d)
                         else
                           and_then
                             (and_then (update_thread_id d st) (update_sections d))
                             (append_message (chat_message ''assistant'' (JStr content)))
                     | _ \<Rightarrow> Raised AttributeError st)
                | _ \<Rightarrow> Raised AttributeError st)
             else
               append_message
                 (chat_message ''assistant'' (dict_get r ''content'' placeholder)) st
         | _ \<Rightarrow> Raised AttributeError st)
      else Done st)"

section \<open>Transport\<close>

subsection \<open>History fetch (\<open>load_chat_history\<close>, lines 43-61)\<close>

text \<open>
  What \<open>requests.get\<close> does is the environment's choice: it raises, or it returns a
  status code and a body that \<open>response.json()\<close> either decodes or rejects.
\<close>

datatype http_body = Body_Json json | Body_Invalid

datatype http_result = Http_Exception | Http_Response nat http_body

text \<open>The endpoint, as a function of the thread id and the bearer token.\<close>

type_synonym http_env = "string \<Rightarrow> string \<Rightarrow> http_result"

text \<open>
  Returns the function's result and the session state. \<open>data.get\<close> on a decoded body
  that is not a dict raises \<open>AttributeError\<close> inside the \<open>try\<close>, before any assignment.
\<close>

definition load_chat_history :: "string \<Rightarrow> http_env \<Rightarrow> session_state \<Rightarrow> bool \<times> session_state" where
  "load_chat_history tid http st =
     (case http tid (auth_token st) of
        Http_Exception \<Rightarrow> (False, st)
      | Http_Response status body \<Rightarrow>
          if status = 200 then
            (case body of
               Body_Invalid \<Rightarrow> (False, st)
             | Body_Json (JObj data) \<Rightarrow>
                 (True, st\<lparr>messages := dict_get data ''messages'' (JArr []),
                           scorecard_state := dict_get data ''state'' (JObj [])\<rparr>)
             | Body_Json _ \<Rightarrow> (False, st))
          else (False, st))"

subsection \<open>WebSocket exchange (\<open>send_websocket_message\<close>, lines 63-131)\<close>

text \<open>
  One \<open>ws.recv()\<close> gives: an empty payload (the \<open>if response:\<close> test fails and the loop
  reads again), a payload that \<open>json.loads\<close> decodes, a payload it rejects, a
  \<open>WebSocketTimeoutException\<close>, or another exception.
\<close>

datatype recv_result =
    Recv_Falsy
  | Recv_Frame json
  | Recv_Undecodable
  | Recv_Timeout
  | Recv_Exception

text \<open>
  The server: whether connecting, sending and closing succeed, and the reads it answers
  to the frame it was sent. The script of reads is finite; a \<open>while True\<close> loop that has
  used it up without reaching a \<open>break\<close> has not returned (\<open>None\<close>).
\<close>

record ws_env =
  connect_ok :: bool
  send_ok :: bool
  recvs :: "json \<Rightarrow> recv_result list"
  close_ok :: bool

fun recv_loop :: "json list \<Rightarrow> recv_result list \<Rightarrow> json list option" where
  "recv_loop responses [] = None"
| "recv_loop responses (Recv_Timeout # rest) = Some responses"
| "recv_loop responses (Recv_Exception # rest) = Some responses"
| "recv_loop responses (Recv_Undecodable # rest) = Some responses"
| "recv_loop responses (Recv_Falsy # rest) = recv_loop responses rest"
| "recv_loop responses (Recv_Frame parsed # rest) =
     (case parsed of
        JObj r \<Rightarrow>
          if dict_get r ''type'' JNull = JStr ''ai_message'' then Some (responses @ [parsed])
          else (case dict_get r ''data'' (JObj []) of
                  JObj d \<Rightarrow>
                    if truthy (dict_get d ''content'' JNull) then Some (responses @ [parsed])
                    else recv_loop (responses @ [parsed]) rest
                | _ \<Rightarrow> Some (responses @ [parsed]))
      | _ \<Rightarrow> Some (responses @ [parsed]))"

text \<open>The frame sent (lines 66-72); \<open>thread_id\<close> is added only when it is truthy.\<close>

definition ws_message :: "string \<Rightarrow> string \<Rightarrow> string \<Rightarrow> json \<Rightarrow> json" where
  "ws_message message_type title content tid =
     JObj ([(''type'', JStr message_type), (''job_title'', JStr title),
            (''content'', JStr content)]
           @ (if truthy tid then [(''thread_id'', tid)] else []))"

text \<open>
  A failed connect or send is caught by the outer \<open>except\<close> and gives \<open>None\<close> (\<open>JNull\<close>);
  a failing \<open>ws.close()\<close> is swallowed in the \<open>finally\<close> block and changes nothing.
  The result is \<open>None\<close> only when the receive loop does not return.
\<close>

definition send_websocket_message ::
  "string \<Rightarrow> string \<Rightarrow> string \<Rightarrow> json \<Rightarrow> ws_env \<Rightarrow> json option" where
  "send_websocket_message message_type title content tid env =
     (let message = ws_message message_type title content tid
      in if \<not> connect_ok env then Some JNull
         else if \<not> send_ok env then Some JNull
         else (case recv_loop [] (recvs env message) of
                 None \<Rightarrow> None
               | Some responses \<Rightarrow>
                   Some (if responses \<noteq> [] then last responses else JNull)))"

section \<open>Pages\<close>

text \<open>
  One run of the script: it ends normally, asks for a rerun (\<open>st.rerun()\<close>), or stops at
  an exception nothing catches. The outcome also lists the frames for which
  \<open>send_websocket_message\<close> was called during the run.
\<close>

datatype control = Finished | Rerun | Crashed py_error

record outcome =
  control :: control
  state :: session_state
  exchanges :: "json list"

subsection \<open>Create page (\<open>modal_page\<close>, lines 133-194)\<close>

record modal_inputs =
  auth_token_in :: string
  job_title_in :: string
  thread_id_in :: string
  continue_clicked :: bool

definition modal_page :: "session_state \<Rightarrow> modal_inputs \<Rightarrow> http_env \<Rightarrow> outcome" where
  "modal_page st inp http =
     (if continue_clicked inp \<and> job_title_in inp \<noteq> [] then
        (let st1 = st\<lparr>job_title := job_title_in inp,
                       thread_id := (if thread_id_in inp \<noteq> [] then JStr (thread_id_in inp)
                                     else JNull),
                       auth_token := (if auth_token_in inp \<noteq> [] then auth_token_in inp
                                      else [])\<rparr>
         in if thread_id_in inp \<noteq> [] then
              (case load_chat_history (thread_id_in inp) http st1 of
                 (True, st2) \<Rightarrow>
                   \<lparr>control = Rerun, state = st2\<lparr>current_page := ''chat''\<rparr>, exchanges = []\<rparr>
               | (False, st2) \<Rightarrow> \<lparr>control = Finished, state = st2, exchanges = []\<rparr>)
            else \<lparr>control = Rerun, state = st1\<lparr>current_page := ''chat''\<rparr>, exchanges = []\<rparr>)
      else \<lparr>control = Finished, state = st, exchanges = []\<rparr>)"

subsection \<open>Chat page (\<open>chat_page\<close>, lines 196-436)\<close>

record chat_inputs =
  back_clicked :: bool
  user_input :: string
  send_clicked :: bool
  save_draft_clicked :: bool
  complete_clicked :: bool

definition chat_idle :: chat_inputs where
  "chat_idle =
     \<lparr> back_clicked = False, user_input = [], send_clicked = False,
       save_draft_clicked = False, complete_clicked = False \<rparr>"

text \<open>
  Rendering is modelled only as far as it can raise. Line 210 slices
  \<open>thread_id[:8]\<close> when the thread id is truthy: a \<open>str\<close> or a list can be sliced, a
  number or bool gives \<open>TypeError\<close> (so does a dict, up to Python 3.11; later versions
  give \<open>KeyError\<close>).
\<close>

definition render_top_bar :: "json \<Rightarrow> py_error option" where
  "render_top_bar tid =
     (if truthy tid then
        (case tid of JStr s \<Rightarrow> None | JArr xs \<Rightarrow> None | _ \<Rightarrow> Some TypeError)
      else None)"

text \<open>
  Lines 219-231 iterate over \<open>messages\<close> and call \<open>message.get\<close> on each element:
  \<open>TypeError\<close> when the value cannot be iterated, \<open>AttributeError\<close> when an element
  (a key, for a dict; a character, for a \<open>str\<close>) is not a dict.
\<close>

fun is_dict :: "json \<Rightarrow> bool" where
  "is_dict (JObj kvs) = True"
| "is_dict _ = False"

definition render_messages :: "json \<Rightarrow> py_error option" where
  "render_messages msgs =
     (case msgs of
        JArr ms \<Rightarrow> if list_all is_dict ms then None else Some AttributeError
      | JObj kvs \<Rightarrow> if kvs = [] then None else Some AttributeError
      | JStr s \<Rightarrow> if s = [] then None else Some AttributeError
      | _ \<Rightarrow> Some TypeError)"

text \<open>
  Lines 349-433 read each section with \<open>scorecard_state.get(name, {})\<close> and, when the
  value is truthy, iterate over its \<open>items()\<close>.
\<close>

definition render_preview :: "json \<Rightarrow> py_error option" where
  "render_preview sc =
     (case sc of
        JObj kvs \<Rightarrow>
          if list_all (\<lambda>name. let v = dict_get kvs name (JObj [])
                               in \<not> truthy v \<or> is_dict v) section_names
          then None else Some AttributeError
      | _ \<Rightarrow> Some AttributeError)"

text \<open>
  Lines 260-342: append the user's message, call the exchange, reconcile the reply,
  clear the loading flag and the pending message, rerun.
\<close>

definition process_pending :: "string \<Rightarrow> ws_env \<Rightarrow> session_state \<Rightarrow> outcome option" where
  "process_pending user_message env st =
     (case append_message (chat_message ''user'' (JStr user_message)) st of
        Raised e st1 \<Rightarrow> Some \<lparr>control = Crashed e, state = st1, exchanges = []\<rparr>
      | Done st1 \<Rightarrow>
          (case send_websocket_message ''user_message'' (job_title st1) user_message
                  (thread_id st1) env of
             None \<Rightarrow> None
           | Some response \<Rightarrow>
               (let sent = [ws_message ''user_message'' (job_title st1) user_message
                              (thread_id st1)]
                in case handle_response response st1 of
                     Raised e st2 \<Rightarrow>
                       Some \<lparr>control = Crashed e, state = st2, exchanges = sent\<rparr>
                   | Done st2 \<Rightarrow>
                       Some \<lparr>control = Rerun,
                             state = st2\<lparr>is_loading := False, pending_message := None\<rparr>,
                             exchanges = sent\<rparr>)))"

definition chat_page :: "session_state \<Rightarrow> chat_inputs \<Rightarrow> ws_env \<Rightarrow> outcome option" where
  "chat_page st inp env =
     (if back_clicked inp then
        Some \<lparr>control = Rerun, state = st\<lparr>current_page := ''modal''\<rparr>, exchanges = []\<rparr>
      else
        (case render_top_bar (thread_id st) of
           Some e \<Rightarrow> Some \<lparr>control = Crashed e, state = st, exchanges = []\<rparr>
         | None \<Rightarrow>
        (case render_messages (messages st) of
           Some e \<Rightarrow> Some \<lparr>control = Crashed e, state = st, exchanges = []\<rparr>
         | None \<Rightarrow>
             if send_clicked inp \<and> user_input inp \<noteq> [] \<and> \<not> is_loading st then
               Some \<lparr>control = Rerun,
                     state = st\<lparr>is_loading := True,
                                pending_message := Some (py_strip (user_input inp))\<rparr>,
                     exchanges = []\<rparr>
             else if is_loading st \<and> pending_message st \<noteq> None then
               process_pending (the (pending_message st)) env st
             else
               (case render_preview (scorecard_state st) of
                  Some e \<Rightarrow> Some \<lparr>control = Crashed e, state = st, exchanges = []\<rparr>
                | None \<Rightarrow> Some \<lparr>control = Finished, state = st, exchanges = []\<rparr>))))"

subsection \<open>\<open>main\<close> (lines 438-443)\<close>

definition main ::
  "session_state \<Rightarrow> modal_inputs \<Rightarrow> chat_inputs \<Rightarrow> http_env \<Rightarrow> ws_env \<Rightarrow> outcome option" where
  "main st minp cinp http env =
     (if current_page st = ''modal'' then Some (modal_page st minp http)
      else if current_page st = ''chat'' then chat_page st cinp env
      else Some \<lparr>control = Finished, state = st, exchanges = []\<rparr>)"

section \<open>Notions used to state the properties\<close>

text \<open>
  The reads after which the body of the receive loop reaches its end without a
  \<open>break\<close>, so that the loop reads again: an empty payload, or a decoded dict whose
  \<open>type\<close> is not \<open>ai_message\<close> and whose \<open>data\<close> (a dict, or absent) has no truthy
  \<open>content\<close>.
\<close>

fun reads_on :: "recv_result \<Rightarrow> bool" where
  "reads_on Recv_Falsy = True"
| "reads_on (Recv_Frame (JObj r)) =
     (dict_get r ''type'' JNull \<noteq> JStr ''ai_message'' \<and>
      (case dict_get r ''data'' (JObj []) of
         JObj d \<Rightarrow> \<not> truthy (dict_get d ''content'' JNull)
       | _ \<Rightarrow> False))"
| "reads_on _ = False"

text \<open>
  The four stopping conditions the specification names: a frame whose \<open>type\<close> is
  \<open>ai_message\<close>, a frame whose nested \<open>data.content\<close> is non-empty, a timeout of the
  read, an error of the read.
\<close>

fun spec_terminal :: "recv_result \<Rightarrow> bool" where
  "spec_terminal Recv_Timeout = True"
| "spec_terminal Recv_Exception = True"
| "spec_terminal (Recv_Frame (JObj r)) =
     (dict_get r ''type'' JNull = JStr ''ai_message'' \<or>
      (case dict_get r ''data'' (JObj []) of
         JObj d \<Rightarrow> truthy (dict_get d ''content'' JNull)
       | _ \<Rightarrow> False))"
| "spec_terminal _ = False"

text \<open>The frames decoded among a sequence of reads, in order.\<close>

fun frames_of :: "recv_result list \<Rightarrow> json list" where
  "frames_of [] = []"
| "frames_of (Recv_Frame parsed # es) = parsed # frames_of es"
| "frames_of (e # es) = frames_of es"

text \<open>The thread id a reply carries in its \<open>data\<close>, \<open>None\<close> when it carries none.\<close>

definition carried_thread_id :: "json \<Rightarrow> json" where
  "carried_thread_id response =
     (case response of
        JObj r \<Rightarrow>
          (case dict_get r ''data'' JNull of
             JObj d \<Rightarrow> dict_get d ''thread_id'' JNull
           | _ \<Rightarrow> JNull)
      | _ \<Rightarrow> JNull)"

subsection \<open>Sample values\<close>

text \<open>A chat session just created for a job title, without a thread id.\<close>

definition fresh_chat :: session_state where
  "fresh_chat =
     init_state\<lparr>current_page := ''chat'', job_title := ''Senior Engineer'',
                thread_id := JNull\<rparr>"

text \<open>A chat session with two messages in the log and two sections in the draft.\<close>

definition busy_chat :: session_state where
  "busy_chat =
     fresh_chat\<lparr>thread_id := JStr ''t-1'',
                 messages := JArr [chat_message ''user'' (JStr ''hi''),
                                   chat_message ''assistant'' (JStr ''hello'')],
                 scorecard_state :=
                   JObj [(''situation'', JObj [(''team_size'', JStr ''3'')]),
                         (''mission'', JObj [(''goal'', JStr ''ship'')])]\<rparr>"

text \<open>
  The reply of the specification's scenario, and the same reply announcing the
  connection instead.
\<close>

definition outcomes_reply :: "(string \<times> json) list" where
  "outcomes_reply =
     [(''type'', JStr ''ai_message''),
      (''data'', JObj [(''content'', JStr ''Great, tell me about outcomes''),
                       (''thread_id'', JStr ''abc123''),
                       (''situation'', JObj [(''team_size'', JStr ''5'')])])]"

definition established_reply :: "(string \<times> json) list" where
  "established_reply =
     [(''type'', JStr ''ai_message''),
      (''data'', JObj [(''content'', JStr '' Connection Established ''),
                       (''thread_id'', JStr ''abc123''),
                       (''situation'', JObj [(''team_size'', JStr ''5'')])])]"

text \<open>
  The reply that leads from \<open>fresh_chat\<close>, after the user has sent \<open>hi\<close>, to
  \<open>busy_chat\<close>; and a reply of type \<open>ai_message\<close> whose \<open>content\<close> is \<open>null\<close>.
\<close>

definition hello_reply :: "(string \<times> json) list" where
  "hello_reply =
     [(''type'', JStr ''ai_message''),
      (''data'', JObj [(''content'', JStr ''hello''),
                       (''thread_id'', JStr ''t-1''),
                       (''situation'', JObj [(''team_size'', JStr ''3'')]),
                       (''mission'', JObj [(''goal'', JStr ''ship'')])])]"

definition null_content_reply :: "(string \<times> json) list" where
  "null_content_reply =
     [(''type'', JStr ''ai_message''), (''data'', JObj [(''content'', JNull)])]"

text \<open>
  Two more replies of type \<open>ai_message\<close> whose \<open>content\<close> is not a string: one that
  carries a section and a \<open>null\<close> content, one whose content is a list of text blocks.
\<close>

definition null_content_section_reply :: "(string \<times> json) list" where
  "null_content_section_reply =
     [(''type'', JStr ''ai_message''),
      (''data'', JObj [(''content'', JNull),
                       (''situation'', JObj [(''team_size'', JStr ''5'')])])]"

definition blocks_content_reply :: "(string \<times> json) list" where
  "blocks_content_reply =
     [(''type'', JStr ''ai_message''),
      (''data'', JObj [(''content'',
                        JArr [JObj [(''type'', JStr ''text''),
                                    (''text'', JStr ''Great, tell me about outcomes'')]]),
                       (''thread_id'', JStr ''abc123'')])]"

text \<open>A server that answers every frame with the given reads.\<close>

definition server :: "recv_result list \<Rightarrow> ws_env" where
  "server reads =
     \<lparr> connect_ok = True, send_ok = True, recvs = (\<lambda>message. reads), close_ok = True \<rparr>"

text \<open>
  Widget values of a run: nothing touched on the Create page, the form of the Create
  page submitted with a job title and a thread id, a text typed and sent on the Chat
  page, the Back button.
\<close>

definition modal_idle :: modal_inputs where
  "modal_idle =
     \<lparr> auth_token_in = [], job_title_in = [], thread_id_in = [], continue_clicked = False \<rparr>"

definition submit :: "string \<Rightarrow> string \<Rightarrow> modal_inputs" where
  "submit title tid = modal_idle\<lparr>job_title_in := title, thread_id_in := tid,
                                  continue_clicked := True\<rparr>"

definition typed_send :: "string \<Rightarrow> chat_inputs" where
  "typed_send s = chat_idle\<lparr>user_input := s, send_clicked := True\<rparr>"

definition go_back :: chat_inputs where
  "go_back = chat_idle\<lparr>back_clicked := True\<rparr>"

text \<open>A history endpoint that knows no thread.\<close>

definition no_history :: http_env where
  "no_history = (\<lambda>tid token. Http_Response 404 Body_Invalid)"

section \<open>Auxiliary facts\<close>

lemma set_section_falsy:
  "\<not> truthy (dict_get d n JNull) \<Longrightarrow> set_section d n st = Done st"
  by (simp add: set_section_def)

lemma set_section_truthy:
  "truthy (dict_get d n JNull) \<Longrightarrow> scorecard_state st = JObj sc \<Longrightarrow>
   set_section d n st =
     Done (st\<lparr>scorecard_state := JObj (AList.update n (dict_get d n JNull) sc)\<rparr>)"
  by (simp add: set_section_def)

lemma fold_sections_dict:
  "scorecard_state st = JObj sc \<Longrightarrow>
   \<exists>sc'. foldl (\<lambda>x name. and_then x (set_section d name)) (Done st) names =
           Done (st\<lparr>scorecard_state := JObj sc'\<rparr>) \<and>
         (\<forall>k. map_of sc' k =
                (if k \<in> set names \<and> truthy (dict_get d k JNull)
                 then Some (dict_get d k JNull) else map_of sc k))"
proof (induction names arbitrary: st sc)
  case Nil
  then show ?case by (intro exI [of _ sc]) simp
next
  case (Cons n ns)
  show ?case
  proof (cases "truthy (dict_get d n JNull)")
    case False
    from Cons.IH [OF Cons.prems] obtain sc' where
      "foldl (\<lambda>x name. and_then x (set_section d name)) (Done st) ns =
         Done (st\<lparr>scorecard_state := JObj sc'\<rparr>)"
      and "\<forall>k. map_of sc' k =
                (if k \<in> set ns \<and> truthy (dict_get d k JNull)
                 then Some (dict_get d k JNull) else map_of sc k)"
      by blast
    with False show ?thesis
      by (intro exI [of _ sc']) (auto simp: set_section_falsy)
  next
    case True
    let ?st1 = "st\<lparr>scorecard_state := JObj (AList.update n (dict_get d n JNull) sc)\<rparr>"
    have "scorecard_state ?st1 = JObj (AList.update n (dict_get d n JNull) sc)" by simp
    from Cons.IH [OF this] obtain sc' where
      f: "foldl (\<lambda>x name. and_then x (set_section d name)) (Done ?st1) ns =
         Done (?st1\<lparr>scorecard_state := JObj sc'\<rparr>)"
      and m: "\<forall>k. map_of sc' k =
                (if k \<in> set ns \<and> truthy (dict_get d k JNull)
                 then Some (dict_get d k JNull)
                 else map_of (AList.update n (dict_get d n JNull) sc) k)"
      by blast
    from True Cons.prems f have
      "foldl (\<lambda>x name. and_then x (set_section d name)) (Done st) (n # ns) =
         Done (st\<lparr>scorecard_state := JObj sc'\<rparr>)"
      by (simp add: set_section_truthy)
    moreover from m True have
      "\<forall>k. map_of sc' k =
                (if k \<in> set (n # ns) \<and> truthy (dict_get d k JNull)
                 then Some (dict_get d k JNull) else map_of sc k)"
      by (auto simp: update_conv')
    ultimately show ?thesis by blast
  qed
qed

lemma update_sections_dict:
  "scorecard_state st = JObj sc \<Longrightarrow>
   \<exists>sc'. update_sections d st = Done (st\<lparr>scorecard_state := JObj sc'\<rparr>) \<and>
         (\<forall>k. map_of sc' k =
                (if k \<in> set section_names \<and> truthy (dict_get d k JNull)
                 then Some (dict_get d k JNull) else map_of sc k))"
  unfolding update_sections_def by (rule fold_sections_dict)

lemma update_thread_id_eq:
  "update_thread_id d st =
     Done (st\<lparr>thread_id := (if truthy (dict_get d ''thread_id'' JNull)
                              then dict_get d ''thread_id'' JNull else thread_id st)\<rparr>)"
  by (simp add: update_thread_id_def)

lemma ai_message_envelope:
  assumes "dict_get r ''type'' JNull = JStr ''ai_message''"
      and "map_of r ''data'' = Some (JObj d)"
      and "dict_get d ''content'' placeholder = JStr content"
  shows "handle_response (JObj r) st =
           (if py_strip (py_lower content) = sentinel
            then and_then (update_thread_id d st) (update_sections d)
            else and_then (and_then (update_thread_id d st) (update_sections d))
                   (append_message (chat_message ''assistant'' (JStr content))))"
proof -
  from assms(2) have "r \<noteq> []" by auto
  moreover from assms(2) have "dict_has r ''data''" "dict_get r ''data'' JNull = JObj d"
    by (simp_all add: dict_has_def dict_get_def)
  ultimately show ?thesis
    using assms(1,3) by (simp add: handle_response_def)
qed

lemma placeholder_not_sentinel: "py_strip (py_lower ''Response received'') \<noteq> sentinel"
proof -
  have "py_strip (py_lower ''Response received'') = ''response received''" by code_simp
  then show ?thesis by (simp add: sentinel_def)
qed

lemma append_message_scorecard:
  "scorecard_state (state_of (append_message m st)) = scorecard_state st"
  by (simp add: append_message_def split: json.splits)

lemma recv_loop_reads_on:
  "\<forall>x\<in>set pre. reads_on x \<Longrightarrow>
   recv_loop responses (pre @ es) = recv_loop (responses @ frames_of pre) es"
proof (induction pre arbitrary: responses)
  case Nil
  then show ?case by simp
next
  case (Cons x pre)
  then have x: "reads_on x" and pre: "\<forall>y\<in>set pre. reads_on y" by simp_all
  show ?case
  proof (cases x)
    case Recv_Falsy
    with Cons.IH [OF pre] show ?thesis by simp
  next
    case (Recv_Frame parsed)
    with x obtain r where p: "parsed = JObj r" by (cases parsed) simp_all
    with x Recv_Frame Cons.IH [OF pre, of "responses @ [parsed]"] show ?thesis
      by (simp split: json.splits)
  qed (use x in simp_all)
qed

lemma recv_loop_terminal:
  "spec_terminal e \<Longrightarrow> recv_loop responses (e # rest) = Some (responses @ frames_of [e])"
proof (cases e)
  case (Recv_Frame parsed)
  assume "spec_terminal e"
  with Recv_Frame obtain r where p: "parsed = JObj r" by (cases parsed) simp_all
  with \<open>spec_terminal e\<close> Recv_Frame show ?thesis
    by (auto split: json.splits)
qed simp_all

lemma frames_of_append: "frames_of (xs @ ys) = frames_of xs @ frames_of ys"
  by (induction xs rule: frames_of.induct) simp_all

lemma set_section_frame:
  assumes "\<And>st v. g (st\<lparr>scorecard_state := v\<rparr>) = g st"
  shows "g (state_of (and_then x (set_section d n))) = g (state_of x)"
proof (cases x)
  case (Done st)
  with assms show ?thesis
    by (cases "scorecard_state st") (simp_all add: set_section_def)
qed simp

lemma update_sections_frame:
  assumes "\<And>st v. g (st\<lparr>scorecard_state := v\<rparr>) = g st"
  shows "g (state_of (update_sections d st)) = g st"
proof -
  have "g (state_of (foldl (\<lambda>x name. and_then x (set_section d name)) x names)) =
          g (state_of x)" for x names
  proof (induction names arbitrary: x)
    case (Cons n ns)
    from Cons.IH [of "and_then x (set_section d n)"] set_section_frame [of g x d n] assms
    show ?case by simp
  qed simp
  from this [of "Done st" section_names] show ?thesis
    by (simp add: update_sections_def)
qed

lemma append_message_frame:
  assumes "\<And>st v. g (st\<lparr>messages := v\<rparr>) = g st"
  shows "g (state_of (and_then x (append_message m))) = g (state_of x)"
proof (cases x)
  case (Done st)
  with assms show ?thesis
    by (cases "messages st") (simp_all add: append_message_def)
qed simp

lemma handle_response_frame:
  assumes t: "\<And>st v. g (st\<lparr>thread_id := v\<rparr>) = g st"
      and s: "\<And>st v. g (st\<lparr>scorecard_state := v\<rparr>) = g st"
      and m: "\<And>st v. g (st\<lparr>messages := v\<rparr>) = g st"
  shows "g (state_of (handle_response response st)) = g st"
proof -
  have u: "g (state_of (and_then (update_thread_id d st) (update_sections d))) = g st" for d
    using update_sections_frame [of g, OF s] t by (simp add: update_thread_id_def)
  have a: "g (state_of (append_message c st)) = g st" for c
    using append_message_frame [of g "Done st" c, OF m] by simp
  show ?thesis
    unfolding handle_response_def
    by (simp add: u a append_message_frame [of g, OF m] split: json.splits)
qed

lemma handle_response_thread_id:
  "thread_id (state_of (handle_response response st)) = thread_id st \<or>
   (truthy (carried_thread_id response) \<and>
    thread_id (state_of (handle_response response st)) = carried_thread_id response)"
proof -
  have u: "thread_id (state_of (update_sections d st1)) = thread_id st1" for d st1
    by (rule update_sections_frame) simp
  have a: "thread_id (state_of (and_then x (append_message c))) = thread_id (state_of x)"
    for x c
    by (rule append_message_frame) simp
  have a': "thread_id (state_of (append_message c st)) = thread_id st" for c 
    using a [of "Done st" c] by simp
  show ?thesis
    by (auto simp: handle_response_def carried_thread_id_def update_thread_id_def u a a'
        split: json.splits)
qed

lemma process_pending_Some:
  assumes "process_pending m env st = Some out"
  shows "(state out = st \<and> exchanges out = []) \<or>
         (\<exists>ms response.
            messages st = JArr ms \<and>
            send_websocket_message ''user_message'' (job_title st) m (thread_id st) env =
              Some response \<and>
            exchanges out = [ws_message ''user_message'' (job_title st) m (thread_id st)] \<and>
            (state out =
               state_of (handle_response response
                 (st\<lparr>messages := JArr (ms @ [chat_message ''user'' (JStr m)])\<rparr>)) \<or>
             state out =
               (state_of (handle_response response
                 (st\<lparr>messages := JArr (ms @ [chat_message ''user'' (JStr m)])\<rparr>)))
               \<lparr>is_loading := False, pending_message := None\<rparr>))"
proof (cases "messages st")
  case (JArr ms)
  let ?st1 = "st\<lparr>messages := JArr (ms @ [chat_message ''user'' (JStr m)])\<rparr>"
  from JArr have a: "append_message (chat_message ''user'' (JStr m)) st = Done ?st1"
    by (simp add: append_message_def)
  from assms a obtain response where
    r: "send_websocket_message ''user_message'' (job_title st) m (thread_id st) env =
          Some response"
    by (auto simp: process_pending_def split: option.splits)
  from assms a r JArr show ?thesis
    by (cases "handle_response response ?st1") (auto simp: process_pending_def)
qed (use assms in \<open>auto simp: process_pending_def append_message_def\<close>)

lemma strip_examples:
  "py_strip ''hi'' = ''hi''"
  "py_strip (py_lower ''hello'') = ''hello''"
  "py_strip ''more'' = ''more''"
  "py_strip ''I lead a team of 5'' = ''I lead a team of 5''"
  "py_strip (py_lower ''Great, tell me about outcomes'') = ''great, tell me about outcomes''"
  by code_simp+

lemmas run_defs =
  main_def modal_page_def load_chat_history_def chat_page_def process_pending_def
  render_top_bar_def render_messages_def render_preview_def
  append_message_def chat_message_def send_websocket_message_def ws_message_def
  handle_response_def update_thread_id_def update_sections_def set_section_def
  section_names_def placeholder_def sentinel_def dict_get_def dict_has_def

lemmas sample_defs =
  init_state_def fresh_chat_def busy_chat_def outcomes_reply_def established_reply_def
  hello_reply_def null_content_reply_def null_content_section_reply_def
  blocks_content_reply_def server_def modal_idle_def submit_def chat_idle_def typed_send_def go_back_def
  no_history_def

lemma empty_reply_resets_loading:
  assumes "messages st = JArr ms"
      and "send_websocket_message ''user_message'' (job_title st) m (thread_id st) env =
             Some response"
      and "\<not> truthy response"
  shows "process_pending m env st =
           Some \<lparr>control = Rerun,
                 state = st\<lparr>messages := JArr (ms @ [chat_message ''user'' (JStr m)]),
                            is_loading := False, pending_message := None\<rparr>,
                 exchanges = [ws_message ''user_message'' (job_title st) m (thread_id st)]\<rparr>"
  using assms by (simp add: process_pending_def append_message_def handle_response_def)

lemma failed_transport_gives_None:
  "\<not> connect_ok env \<or> \<not> send_ok env \<Longrightarrow>
   send_websocket_message message_type title content tid env = Some JNull"
  by (auto simp: send_websocket_message_def)

lemma handle_response_keeps_log:
  assumes "messages st = JArr ms"
  shows "\<exists>suffix. messages (state_of (handle_response response st)) = JArr (ms @ suffix)"
proof -
  have u: "messages (state_of (update_sections d st1)) = messages st1" for d st1
    by (rule update_sections_frame) simp
  have a: "\<exists>suffix. messages (state_of (and_then x (append_message c))) = JArr (ms @ suffix)"
    if "messages (state_of x) = JArr ms" for x c
    using that by (cases x) (auto simp: append_message_def)
  have b: "\<exists>suffix. messages (state_of (and_then (and_then (update_thread_id d st)
              (update_sections d)) (append_message c))) = JArr (ms @ suffix)" for d c
    by (rule a) (simp add: update_thread_id_def u assms)
  have "\<exists>suffix. messages st = JArr (ms @ suffix)"
    using assms by simp
  moreover have "\<exists>suffix. messages (state_of (append_message c st)) = JArr (ms @ suffix)" for c
    using a [of "Done st" c] assms by simp
  ultimately show ?thesis
    unfolding handle_response_def
    using b by (simp add: update_thread_id_def u assms split: json.splits)
qed

lemma optimistic_message_stays:
  assumes "messages st = JArr ms" and "process_pending m env st = Some out"
  shows "\<exists>suffix. messages (state out) = JArr (ms @ chat_message ''user'' (JStr m) # suffix)"
proof -
  let ?st1 = "st\<lparr>messages := JArr (ms @ [chat_message ''user'' (JStr m)])\<rparr>"
  have "messages ?st1 = JArr (ms @ [chat_message ''user'' (JStr m)])" by simp
  from handle_response_keeps_log [OF this] have
    k: "\<exists>suffix. messages (state_of (handle_response response ?st1)) =
          JArr (ms @ chat_message ''user'' (JStr m) # suffix)" for response
    by simp
  from assms obtain response where
    s: "send_websocket_message ''user_message'' (job_title st) m (thread_id st) env =
          Some response"
    by (auto simp: process_pending_def append_message_def split: option.splits)
  have "state out = state_of (handle_response response ?st1) \<or>
     state out = (state_of (handle_response response ?st1))
                   \<lparr>is_loading := False, pending_message := None\<rparr>"
    using assms s
    by (cases "handle_response response ?st1")
       (auto simp: process_pending_def append_message_def Let_def)
  with k [of response] show ?thesis by auto
qed

section \<open>Properties\<close>

subsection \<open>The connection sentinel\<close>

text \<open>
  Claim C1. A reply of type \<open>ai_message\<close> whose \<open>data.content\<close>, lower-cased and
  stripped, is the sentinel \<open>connection established\<close>: the thread id becomes the one
  the reply carries (when it carries a truthy one), every section the reply carries
  replaces the draft's entry, nothing else in the session state changes, and in
  particular the message log is the same as before.
\<close>

theorem connection_established_not_logged:
  assumes "dict_get r ''type'' JNull = JStr ''ai_message''"
      and "map_of r ''data'' = Some (JObj d)"
      and "map_of d ''content'' = Some (JStr content)"
      and "py_strip (py_lower content) = sentinel"
      and "scorecard_state st = JObj sc"
  shows "\<exists>sc'. handle_response (JObj r) st =
           Done (st\<lparr>thread_id := (if truthy (dict_get d ''thread_id'' JNull)
                                    then dict_get d ''thread_id'' JNull else thread_id st),
                     scorecard_state := JObj sc'\<rparr>) \<and>
           messages (state_of (handle_response (JObj r) st)) = messages st \<and>
           (\<forall>k. map_of sc' k =
                  (if k \<in> set section_names \<and> truthy (dict_get d k JNull)
                   then Some (dict_get d k JNull) else map_of sc k))"
proof -
  let ?st1 = "st\<lparr>thread_id := (if truthy (dict_get d ''thread_id'' JNull)
                                 then dict_get d ''thread_id'' JNull else thread_id st)\<rparr>"
  from assms(3) have c: "dict_get d ''content'' placeholder = JStr content"
    by (simp add: dict_get_def)
  have h: "handle_response (JObj r) st = update_sections d ?st1"
    using ai_message_envelope [OF assms(1,2) c] assms(4)
    by (simp add: update_thread_id_eq)
  from assms(5) have "scorecard_state ?st1 = JObj sc" by simp
  from update_sections_dict [OF this, of d] obtain sc' where
    u: "update_sections d ?st1 = Done (?st1\<lparr>scorecard_state := JObj sc'\<rparr>)"
    and m: "\<forall>k. map_of sc' k =
                (if k \<in> set section_names \<and> truthy (dict_get d k JNull)
                 then Some (dict_get d k JNull) else map_of sc k)"
    by blast
  from h u m show ?thesis by (intro exI [of _ sc']) simp
qed

theorem connection_established_not_logged_witness:
  "dict_get established_reply ''type'' JNull = JStr ''ai_message'' \<and>
   py_strip (py_lower '' Connection Established '') = sentinel \<and>
   messages (state_of (handle_response (JObj established_reply) busy_chat)) =
     JArr [chat_message ''user'' (JStr ''hi''), chat_message ''assistant'' (JStr ''hello'')] \<and>
   (\<exists>sc'. handle_response (JObj established_reply) busy_chat =
            Done (busy_chat\<lparr>thread_id := JStr ''abc123'', scorecard_state := JObj sc'\<rparr>) \<and>
          map_of sc' ''situation'' = Some (JObj [(''team_size'', JStr ''5'')]) \<and>
          map_of sc' ''mission'' = Some (JObj [(''goal'', JStr ''ship'')]))"
proof -
  let ?d = "[(''content'', JStr '' Connection Established ''),
             (''thread_id'', JStr ''abc123''),
             (''situation'', JObj [(''team_size'', JStr ''5'')])]"
  let ?sc = "[(''situation'', JObj [(''team_size'', JStr ''3'')]),
              (''mission'', JObj [(''goal'', JStr ''ship'')])]"
  have h1: "dict_get established_reply ''type'' JNull = JStr ''ai_message''"
    by (simp add: established_reply_def dict_get_def)
  have h2: "map_of established_reply ''data'' = Some (JObj ?d)"
    by (simp add: established_reply_def)
  have h3: "map_of ?d ''content'' = Some (JStr '' Connection Established '')"
    by simp
  have h4: "py_strip (py_lower '' Connection Established '') = sentinel"
    by code_simp
  have h5: "scorecard_state busy_chat = JObj ?sc"
    by (simp add: busy_chat_def fresh_chat_def)
  from connection_established_not_logged [OF h1 h2 h3 h4 h5] obtain sc' where
    "handle_response (JObj established_reply) busy_chat =
       Done (busy_chat\<lparr>thread_id := (if truthy (dict_get ?d ''thread_id'' JNull)
                                       then dict_get ?d ''thread_id'' JNull
                                       else thread_id busy_chat),
                        scorecard_state := JObj sc'\<rparr>)"
    and "messages (state_of (handle_response (JObj established_reply) busy_chat)) =
           messages busy_chat"
    and "\<forall>k. map_of sc' k =
           (if k \<in> set section_names \<and> truthy (dict_get ?d k JNull)
            then Some (dict_get ?d k JNull) else map_of ?sc k)"
    by blast
  then have
    "handle_response (JObj established_reply) busy_chat =
       Done (busy_chat\<lparr>thread_id := JStr ''abc123'', scorecard_state := JObj sc'\<rparr>)"
    and "messages (state_of (handle_response (JObj established_reply) busy_chat)) =
     JArr [chat_message ''user'' (JStr ''hi''), chat_message ''assistant'' (JStr ''hello'')]"
    and "map_of sc' ''situation'' = Some (JObj [(''team_size'', JStr ''5'')])"
    and "map_of sc' ''mission'' = Some (JObj [(''goal'', JStr ''ship'')])"
    by (simp_all add: dict_get_def section_names_def busy_chat_def fresh_chat_def)
  with h1 h4 show ?thesis by blast
qed


subsection \<open>A new session after Back\<close>

text \<open>
  Claim C2, evaluated. A session is created without a thread id, the user sends \<open>hi\<close>,
  the reply fills the log and the draft; then Back, then a new submit with another job
  title and no thread id. The page is the Chat page again, and the log and the draft
  are still those of the earlier session: neither Back (lines 201-203) nor the branch
  commented \<open>Start new conversation\<close> (lines 191-194) resets them.
\<close>

theorem back_then_submit_keeps_old_session:
  "main init_state (submit ''Senior Engineer'' []) chat_idle no_history (server []) =
     Some \<lparr>control = Rerun, state = fresh_chat, exchanges = []\<rparr> \<and>
   main fresh_chat modal_idle (typed_send ''hi'') no_history (server []) =
     Some \<lparr>control = Rerun,
           state = fresh_chat\<lparr>is_loading := True, pending_message := Some ''hi''\<rparr>,
           exchanges = []\<rparr> \<and>
   main (fresh_chat\<lparr>is_loading := True, pending_message := Some ''hi''\<rparr>) modal_idle chat_idle
     no_history (server [Recv_Frame (JObj hello_reply)]) =
     Some \<lparr>control = Rerun, state = busy_chat,
           exchanges = [ws_message ''user_message'' ''Senior Engineer'' ''hi'' JNull]\<rparr> \<and>
   main busy_chat modal_idle go_back no_history (server []) =
     Some \<lparr>control = Rerun, state = busy_chat\<lparr>current_page := ''modal''\<rparr>, exchanges = []\<rparr> \<and>
   main (busy_chat\<lparr>current_page := ''modal''\<rparr>) (submit ''Designer'' []) chat_idle no_history
     (server []) =
     Some \<lparr>control = Rerun,
           state = busy_chat\<lparr>job_title := ''Designer'', thread_id := JNull\<rparr>,
           exchanges = []\<rparr> \<and>
   current_page (busy_chat\<lparr>job_title := ''Designer'', thread_id := JNull\<rparr>) = ''chat'' \<and>
   messages (busy_chat\<lparr>job_title := ''Designer'', thread_id := JNull\<rparr>) =
     JArr [chat_message ''user'' (JStr ''hi''), chat_message ''assistant'' (JStr ''hello'')] \<and>
   scorecard_state (busy_chat\<lparr>job_title := ''Designer'', thread_id := JNull\<rparr>) =
     JObj [(''situation'', JObj [(''team_size'', JStr ''3'')]),
           (''mission'', JObj [(''goal'', JStr ''ship'')])]"
  by (intro conjI) (simp_all add: run_defs sample_defs strip_examples)


subsection \<open>The receive loop\<close>

text \<open>
  Claim C3. When the reads the server answers are \<open>pre @ e # rest\<close>, where every read
  of \<open>pre\<close> lets the loop read again and \<open>e\<close> is a frame of type \<open>ai_message\<close>, a frame
  with a non-empty \<open>data.content\<close>, a timeout or a read error, the exchange returns
  whatever \<open>rest\<close> is (the loop has stopped at \<open>e\<close>), and its result is the last frame
  decoded up to and including \<open>e\<close>, or \<open>None\<close> when no frame was decoded.
\<close>

theorem receive_loop_returns_last_frame:
  assumes "connect_ok env" and "send_ok env"
      and "recvs env (ws_message message_type title content tid) = pre @ e # rest"
      and "\<forall>x\<in>set pre. reads_on x"
      and "spec_terminal e"
  shows "send_websocket_message message_type title content tid env =
           Some (if frames_of (pre @ [e]) = [] then JNull else last (frames_of (pre @ [e])))"
proof -
  have "recv_loop [] (pre @ e # rest) = Some (frames_of (pre @ [e]))"
    using recv_loop_reads_on [OF assms(4), of "[]" "e # rest"] recv_loop_terminal [OF assms(5)]
    by (simp add: frames_of_append)
  with assms(1-3) show ?thesis
    by (simp add: send_websocket_message_def)
qed

theorem receive_loop_returns_last_frame_witness:
  "send_websocket_message ''user_message'' ''Senior Engineer'' ''hi'' JNull
     (server [Recv_Falsy, Recv_Frame (JObj [(''type'', JStr ''status'')]),
              Recv_Frame (JObj outcomes_reply), Recv_Frame (JObj [(''content'', JStr ''late'')])])
     = Some (JObj outcomes_reply) \<and>
   send_websocket_message ''user_message'' ''Senior Engineer'' ''hi'' JNull
     (server [Recv_Frame (JObj [(''type'', JStr ''status'')]), Recv_Timeout])
     = Some (JObj [(''type'', JStr ''status'')]) \<and>
   send_websocket_message ''user_message'' ''Senior Engineer'' ''hi'' JNull
     (server [Recv_Exception]) = Some JNull"
proof -
  let ?status = "Recv_Frame (JObj [(''type'', JStr ''status'')])"
  let ?late = "Recv_Frame (JObj [(''content'', JStr ''late'')])"
  let ?m = "ws_message ''user_message'' ''Senior Engineer'' ''hi'' JNull"
  have p: "\<forall>x\<in>set [Recv_Falsy, ?status]. reads_on x" "\<forall>x\<in>set [?status]. reads_on x"
    "\<forall>x\<in>set ([] :: recv_result list). reads_on x"
    by (simp_all add: dict_get_def)
  have t: "spec_terminal (Recv_Frame (JObj outcomes_reply))" "spec_terminal Recv_Timeout"
    "spec_terminal Recv_Exception"
    by (simp_all add: outcomes_reply_def dict_get_def)
  have c: "\<And>reads. connect_ok (server reads)" "\<And>reads. send_ok (server reads)"
    by (simp_all add: server_def)
  have r1: "recvs (server [Recv_Falsy, ?status, Recv_Frame (JObj outcomes_reply), ?late]) ?m =
              [Recv_Falsy, ?status] @ Recv_Frame (JObj outcomes_reply) # [?late]"
    and r2: "recvs (server [?status, Recv_Timeout]) ?m = [?status] @ Recv_Timeout # []"
    and r3: "recvs (server [Recv_Exception]) ?m = [] @ Recv_Exception # []"
    by (simp_all add: server_def)
  from receive_loop_returns_last_frame [OF c r1 p(1) t(1)]
       receive_loop_returns_last_frame [OF c r2 p(2) t(2)]
       receive_loop_returns_last_frame [OF c r3 p(3) t(3)]
  show ?thesis by simp
qed


subsection \<open>Section merge\<close>

text \<open>
  Claim C4, evaluated. A message is pending in a session whose draft has
  \<open>situation = {team_size: 3}\<close>, and the reply is an \<open>ai_message\<close> that carries
  \<open>situation = {team_size: 5}\<close> and a \<open>null\<close> content. \<open>content.lower()\<close> (line 284)
  raises before either copy of the seven assignments (lines 289-302, 309-322) is
  reached: the run stops and the draft's entry is not replaced.
\<close>

theorem non_string_content_skips_sections:
  "main (busy_chat\<lparr>is_loading := True, pending_message := Some ''more''\<rparr>) modal_idle chat_idle
     no_history (server [Recv_Frame (JObj null_content_section_reply)]) =
     Some \<lparr>control = Crashed AttributeError,
           state = busy_chat\<lparr>is_loading := True, pending_message := Some ''more'',
                     messages := JArr [chat_message ''user'' (JStr ''hi''),
                                       chat_message ''assistant'' (JStr ''hello''),
                                       chat_message ''user'' (JStr ''more'')]\<rparr>,
           exchanges = [ws_message ''user_message'' ''Senior Engineer'' ''more''
                          (JStr ''t-1'')]\<rparr> \<and>
   handle_response (JObj null_content_section_reply) busy_chat =
     Raised AttributeError busy_chat \<and>
   truthy (dict_get [(''content'', JNull),
                     (''situation'', JObj [(''team_size'', JStr ''5'')])]
             ''situation'' JNull) \<and>
   scorecard_state busy_chat =
     JObj [(''situation'', JObj [(''team_size'', JStr ''3'')]),
           (''mission'', JObj [(''goal'', JStr ''ship'')])]"
  by (intro conjI) (simp_all add: run_defs sample_defs strip_examples)

text \<open>
  Where the \<open>content\<close> of the reply is a string or absent, the merge is as described,
  in both branches: for each of the seven section names the draft's entry after the
  reply is the reply's value when that value is truthy, and the previous entry (or
  still no entry) when the value is absent or falsy.
\<close>

lemma section_merge_policy:
  assumes "dict_get r ''type'' JNull = JStr ''ai_message''"
      and "map_of r ''data'' = Some (JObj d)"
      and "dict_get d ''content'' placeholder = JStr content"
      and "scorecard_state st = JObj sc"
      and "name \<in> {''situation'', ''mission'', ''outcomes'', ''competencies'', ''culture'',
                    ''boss_style'', ''requirements''}"
  shows "\<exists>sc'. scorecard_state (state_of (handle_response (JObj r) st)) = JObj sc' \<and>
           map_of sc' name =
             (if truthy (dict_get d name JNull) then Some (dict_get d name JNull)
              else map_of sc name)"
proof -
  let ?st1 = "st\<lparr>thread_id := (if truthy (dict_get d ''thread_id'' JNull)
                                 then dict_get d ''thread_id'' JNull else thread_id st)\<rparr>"
  from assms(4) have "scorecard_state ?st1 = JObj sc" by simp
  from update_sections_dict [OF this, of d] obtain sc' where
    u: "update_sections d ?st1 = Done (?st1\<lparr>scorecard_state := JObj sc'\<rparr>)"
    and m: "\<forall>k. map_of sc' k =
                (if k \<in> set section_names \<and> truthy (dict_get d k JNull)
                 then Some (dict_get d k JNull) else map_of sc k)"
    by blast
  from assms(5) have "name \<in> set section_names"
    by (auto simp: section_names_def)
  with m have "map_of sc' name =
      (if truthy (dict_get d name JNull) then Some (dict_get d name JNull) else map_of sc name)"
    by simp
  moreover have "scorecard_state (state_of (handle_response (JObj r) st)) = JObj sc'"
    using ai_message_envelope [OF assms(1,2,3)] u
    by (simp add: update_thread_id_eq append_message_scorecard)
  ultimately show ?thesis by blast
qed

lemma section_merge_policy_example:
  "(\<exists>sc'. scorecard_state (state_of (handle_response (JObj outcomes_reply) busy_chat)) = JObj sc' \<and>
          map_of sc' ''situation'' = Some (JObj [(''team_size'', JStr ''5'')])) \<and>
   (\<exists>sc'. scorecard_state (state_of (handle_response (JObj outcomes_reply) busy_chat)) = JObj sc' \<and>
          map_of sc' ''mission'' = Some (JObj [(''goal'', JStr ''ship'')]))"
proof -
  let ?d = "[(''content'', JStr ''Great, tell me about outcomes''),
             (''thread_id'', JStr ''abc123''),
             (''situation'', JObj [(''team_size'', JStr ''5'')])]"
  let ?sc = "[(''situation'', JObj [(''team_size'', JStr ''3'')]),
              (''mission'', JObj [(''goal'', JStr ''ship'')])]"
  let ?names = "{''situation'', ''mission'', ''outcomes'', ''competencies'', ''culture'',
                 ''boss_style'', ''requirements''}"
  have h1: "dict_get outcomes_reply ''type'' JNull = JStr ''ai_message''"
    by (simp add: outcomes_reply_def dict_get_def)
  have h2: "map_of outcomes_reply ''data'' = Some (JObj ?d)"
    by (simp add: outcomes_reply_def)
  have h3: "dict_get ?d ''content'' placeholder = JStr ''Great, tell me about outcomes''"
    by (simp add: dict_get_def)
  have h4: "scorecard_state busy_chat = JObj ?sc"
    by (simp add: busy_chat_def fresh_chat_def)
  have s: "''situation'' \<in> ?names" and m: "''mission'' \<in> ?names"
    by simp_all
  from section_merge_policy [OF h1 h2 h3 h4 s] section_merge_policy [OF h1 h2 h3 h4 m]
  show ?thesis by (simp add: dict_get_def)
qed


subsection \<open>Sending while loading\<close>

text \<open>
  Claim C5. While the loading flag is set, a click on Send changes nothing: the run is
  the run without the click. It calls the exchange at most once, and then for the
  message that was already pending, and it never makes the new input the pending
  message.
\<close>

theorem send_while_loading_rejected:
  assumes "is_loading st"
  shows "chat_page st inp env = chat_page st (inp\<lparr>send_clicked := False\<rparr>) env \<and>
         (\<forall>out. chat_page st inp env = Some out \<longrightarrow>
            (exchanges out = [] \<or>
             (\<exists>m. pending_message st = Some m \<and>
                  exchanges out =
                    [ws_message ''user_message'' (job_title st) m (thread_id st)])) \<and>
            (pending_message (state out) = pending_message st \<or>
             pending_message (state out) = None))"
proof (intro conjI allI impI)
  from assms show "chat_page st inp env = chat_page st (inp\<lparr>send_clicked := False\<rparr>) env"
    by (simp add: chat_page_def)
next
  fix out
  assume c: "chat_page st inp env = Some out"
  have "(pending_message (state out) = pending_message st \<and> exchanges out = []) \<or>
        (\<exists>m. pending_message st = Some m \<and> process_pending m env st = Some out)"
    using c assms by (auto simp: chat_page_def split: option.splits if_splits)
  then have both:
    "(exchanges out = [] \<or>
       (\<exists>m. pending_message st = Some m \<and>
            exchanges out = [ws_message ''user_message'' (job_title st) m (thread_id st)])) \<and>
     (pending_message (state out) = pending_message st \<or> pending_message (state out) = None)"
  proof
    assume "pending_message (state out) = pending_message st \<and> exchanges out = []"
    then show ?thesis by simp
  next
    assume "\<exists>m. pending_message st = Some m \<and> process_pending m env st = Some out"
    then obtain m where m: "pending_message st = Some m"
      and p: "process_pending m env st = Some out" by blast
    have k: "pending_message (state_of (handle_response response st1)) = pending_message st1"
      for response st1
      by (rule handle_response_frame) simp_all
    from process_pending_Some [OF p] m show ?thesis
      by (auto simp: k)
  qed
  from both show "exchanges out = [] \<or>
       (\<exists>m. pending_message st = Some m \<and>
            exchanges out = [ws_message ''user_message'' (job_title st) m (thread_id st)])"
    by (rule conjunct1)
  from both show
    "pending_message (state out) = pending_message st \<or> pending_message (state out) = None"
    by (rule conjunct2)
qed

theorem send_while_loading_rejected_witness:
  "is_loading (fresh_chat\<lparr>is_loading := True, pending_message := Some ''hi''\<rparr>) \<and>
   chat_page (fresh_chat\<lparr>is_loading := True, pending_message := Some ''hi''\<rparr>)
     (typed_send ''more'') (server [Recv_Timeout]) =
   Some \<lparr>control = Rerun,
         state = fresh_chat\<lparr>messages := JArr [chat_message ''user'' (JStr ''hi'')]\<rparr>,
         exchanges = [ws_message ''user_message'' ''Senior Engineer'' ''hi'' JNull]\<rparr> \<and>
   chat_page (fresh_chat\<lparr>is_loading := True, pending_message := Some ''hi''\<rparr>)
     (typed_send ''more'') (server [Recv_Timeout]) =
   chat_page (fresh_chat\<lparr>is_loading := True, pending_message := Some ''hi''\<rparr>)
     ((typed_send ''more'')\<lparr>send_clicked := False\<rparr>) (server [Recv_Timeout]) \<and>
   (pending_message (fresh_chat\<lparr>messages := JArr [chat_message ''user'' (JStr ''hi'')]\<rparr>) =
      Some ''hi'' \<or>
    pending_message (fresh_chat\<lparr>messages := JArr [chat_message ''user'' (JStr ''hi'')]\<rparr>) =
      None)"
proof -
  let ?st = "fresh_chat\<lparr>is_loading := True, pending_message := Some ''hi''\<rparr>"
  let ?out = "\<lparr>control = Rerun,
         state = fresh_chat\<lparr>messages := JArr [chat_message ''user'' (JStr ''hi'')]\<rparr>,
         exchanges = [ws_message ''user_message'' ''Senior Engineer'' ''hi'' JNull]\<rparr>"
  have l: "is_loading ?st" by simp
  have e: "chat_page ?st (typed_send ''more'') (server [Recv_Timeout]) = Some ?out"
    by (simp add: run_defs sample_defs)
  note r = send_while_loading_rejected [OF l, of "typed_send ''more''" "server [Recv_Timeout]"]
  from r have same:
    "chat_page ?st (typed_send ''more'') (server [Recv_Timeout]) =
     chat_page ?st ((typed_send ''more'')\<lparr>send_clicked := False\<rparr>) (server [Recv_Timeout])"
    by (rule conjunct1)
  from r have "\<forall>out. chat_page ?st (typed_send ''more'') (server [Recv_Timeout]) = Some out \<longrightarrow>
            (exchanges out = [] \<or>
             (\<exists>m. pending_message ?st = Some m \<and>
                  exchanges out =
                    [ws_message ''user_message'' (job_title ?st) m (thread_id ?st)])) \<and>
            (pending_message (state out) = pending_message ?st \<or>
             pending_message (state out) = None)"
    by (rule conjunct2)
  then have "chat_page ?st (typed_send ''more'') (server [Recv_Timeout]) = Some ?out \<longrightarrow>
            (exchanges ?out = [] \<or>
             (\<exists>m. pending_message ?st = Some m \<and>
                  exchanges ?out =
                    [ws_message ''user_message'' (job_title ?st) m (thread_id ?st)])) \<and>
            (pending_message (state ?out) = pending_message ?st \<or>
             pending_message (state ?out) = None)"
    by (rule spec)
  from this e have
    "(exchanges ?out = [] \<or>
       (\<exists>m. pending_message ?st = Some m \<and>
            exchanges ?out =
              [ws_message ''user_message'' (job_title ?st) m (thread_id ?st)])) \<and>
     (pending_message (state ?out) = pending_message ?st \<or>
      pending_message (state ?out) = None)"
    by (rule mp)
  then have "pending_message (state ?out) = pending_message ?st \<or>
             pending_message (state ?out) = None"
    by (rule conjunct2)
  then have p:
    "pending_message (fresh_chat\<lparr>messages := JArr [chat_message ''user'' (JStr ''hi'')]\<rparr>) =
       Some ''hi'' \<or>
     pending_message (fresh_chat\<lparr>messages := JArr [chat_message ''user'' (JStr ''hi'')]\<rparr>) =
       None"
    by simp
  from l e same p show ?thesis by (intro conjI)
qed

subsection \<open>Failed history fetch\<close>

text \<open>
  Claim C6. The Create page is submitted with a job title and a thread id, and the
  history fetch raises or answers with a status other than 200: the run ends without
  a rerun, the page is still the Create page, and the message log and the draft are
  what they were.
\<close>

theorem failed_history_fetch_stays_on_create:
  assumes "current_page st = ''modal''"
      and "continue_clicked inp" and "job_title_in inp \<noteq> []" and "thread_id_in inp \<noteq> []"
      and "http (thread_id_in inp) (auth_token_in inp) = Http_Exception \<or>
           (\<exists>status body. http (thread_id_in inp) (auth_token_in inp) =
                             Http_Response status body \<and> status \<noteq> 200)"
  shows "\<exists>out. main st inp cinp http env = Some out \<and>
           control out = Finished \<and>
           current_page (state out) = ''modal'' \<and>
           messages (state out) = messages st \<and>
           scorecard_state (state out) = scorecard_state st"
  using assms
  by (auto simp: main_def modal_page_def load_chat_history_def)

theorem failed_history_fetch_stays_on_create_witness:
  "current_page init_state = ''modal'' \<and>
   no_history ''t-404'' [] = Http_Response 404 Body_Invalid \<and>
   (\<exists>out. main init_state (submit ''Senior Engineer'' ''t-404'') chat_idle no_history
            (server []) = Some out \<and>
          control out = Finished \<and> current_page (state out) = ''modal'' \<and>
          messages (state out) = JArr [] \<and> scorecard_state (state out) = JObj [])"
proof -
  let ?inp = "submit ''Senior Engineer'' ''t-404''"
  have h1: "current_page init_state = ''modal''" by (simp add: init_state_def)
  have h2: "continue_clicked ?inp" and h3: "job_title_in ?inp \<noteq> []"
    and h4: "thread_id_in ?inp \<noteq> []"
    by (simp_all add: submit_def modal_idle_def)
  have r: "no_history ''t-404'' [] = Http_Response 404 Body_Invalid"
    by (simp add: no_history_def)
  have h5: "no_history (thread_id_in ?inp) (auth_token_in ?inp) = Http_Exception \<or>
           (\<exists>status body. no_history (thread_id_in ?inp) (auth_token_in ?inp) =
                             Http_Response status body \<and> status \<noteq> 200)"
    by (simp add: no_history_def)
  from failed_history_fetch_stays_on_create
         [where st = init_state and inp = ?inp and http = no_history and cinp = chat_idle
            and env = "server []", OF h1 h2 h3 h4 h5] h1 r
  show ?thesis by (simp add: init_state_def)
qed


subsection \<open>Outcomes of a send\<close>

text \<open>
  Claim C7, evaluated. The user sends a text; the next run appends it to the log and
  calls the exchange, which returns a frame of type \<open>ai_message\<close> whose \<open>content\<close> is
  \<open>null\<close>. \<open>content.lower()\<close> (line 284) raises, the run stops before line 339, and the
  loading flag and the pending message stay set. The user's message is in the log.
\<close>

theorem malformed_reply_leaves_loading_set:
  "main fresh_chat modal_idle (typed_send ''I lead a team of 5'') no_history (server []) =
     Some \<lparr>control = Rerun,
           state = fresh_chat\<lparr>is_loading := True,
                              pending_message := Some ''I lead a team of 5''\<rparr>,
           exchanges = []\<rparr> \<and>
   main (fresh_chat\<lparr>is_loading := True, pending_message := Some ''I lead a team of 5''\<rparr>)
     modal_idle chat_idle no_history (server [Recv_Frame (JObj null_content_reply)]) =
     Some \<lparr>control = Crashed AttributeError,
           state = fresh_chat\<lparr>is_loading := True,
                              pending_message := Some ''I lead a team of 5'',
                              messages := JArr [chat_message ''user''
                                                  (JStr ''I lead a team of 5'')]\<rparr>,
           exchanges = [ws_message ''user_message'' ''Senior Engineer''
                          ''I lead a team of 5'' JNull]\<rparr>"
  by (intro conjI) (simp_all add: run_defs sample_defs strip_examples)


subsection \<open>Assistant replies\<close>

text \<open>
  Claim C8, evaluated. The reply is an \<open>ai_message\<close> whose \<open>content\<close> is a list of text
  blocks, hence not the sentinel, and which carries a thread id. The exchange returns
  it; \<open>content.lower()\<close> (line 284) raises, so no assistant message is appended and the
  thread id is not stored. The fallback branch (lines 331-336) appends a reply's
  \<open>content\<close> whatever its type.
\<close>

theorem non_string_content_appends_nothing:
  "send_websocket_message ''user_message'' ''Senior Engineer'' ''more'' (JStr ''t-1'')
     (server [Recv_Frame (JObj blocks_content_reply)]) = Some (JObj blocks_content_reply) \<and>
   handle_response (JObj blocks_content_reply) busy_chat = Raised AttributeError busy_chat \<and>
   messages busy_chat =
     JArr [chat_message ''user'' (JStr ''hi''), chat_message ''assistant'' (JStr ''hello'')] \<and>
   thread_id busy_chat = JStr ''t-1'' \<and>
   handle_response
     (JObj [(''content'', JArr [JObj [(''type'', JStr ''text''),
                                      (''text'', JStr ''Great, tell me about outcomes'')]])])
     busy_chat =
     Done (busy_chat\<lparr>messages :=
       JArr [chat_message ''user'' (JStr ''hi''), chat_message ''assistant'' (JStr ''hello''),
             chat_message ''assistant''
               (JArr [JObj [(''type'', JStr ''text''),
                            (''text'', JStr ''Great, tell me about outcomes'')]])]\<rparr>)"
  by (intro conjI) (simp_all add: run_defs sample_defs)

text \<open>
  Where the \<open>content\<close> of the reply is a string other than the sentinel (after
  lower-casing and stripping), the log grows by exactly one message,
  \<open>{role: assistant, content}\<close> with the content as received, and the thread id and
  the sections are updated as for the sentinel.
\<close>

lemma other_content_appends_assistant:
  assumes "dict_get r ''type'' JNull = JStr ''ai_message''"
      and "map_of r ''data'' = Some (JObj d)"
      and "map_of d ''content'' = Some (JStr content)"
      and "py_strip (py_lower content) \<noteq> sentinel"
      and "scorecard_state st = JObj sc"
      and "messages st = JArr ms"
  shows "\<exists>sc'. handle_response (JObj r) st =
           Done (st\<lparr>thread_id := (if truthy (dict_get d ''thread_id'' JNull)
                                    then dict_get d ''thread_id'' JNull else thread_id st),
                     scorecard_state := JObj sc',
                     messages := JArr (ms @ [chat_message ''assistant'' (JStr content)])\<rparr>) \<and>
           (\<forall>k. map_of sc' k =
                  (if k \<in> set section_names \<and> truthy (dict_get d k JNull)
                   then Some (dict_get d k JNull) else map_of sc k))"
proof -
  let ?st1 = "st\<lparr>thread_id := (if truthy (dict_get d ''thread_id'' JNull)
                                 then dict_get d ''thread_id'' JNull else thread_id st)\<rparr>"
  from assms(3) have c: "dict_get d ''content'' placeholder = JStr content"
    by (simp add: dict_get_def)
  have h: "handle_response (JObj r) st =
             and_then (update_sections d ?st1)
               (append_message (chat_message ''assistant'' (JStr content)))"
    using ai_message_envelope [OF assms(1,2) c] assms(4)
    by (simp add: update_thread_id_eq)
  from assms(5) have "scorecard_state ?st1 = JObj sc" by simp
  from update_sections_dict [OF this, of d] obtain sc' where
    u: "update_sections d ?st1 = Done (?st1\<lparr>scorecard_state := JObj sc'\<rparr>)"
    and m: "\<forall>k. map_of sc' k =
                (if k \<in> set section_names \<and> truthy (dict_get d k JNull)
                 then Some (dict_get d k JNull) else map_of sc k)"
    by blast
  from h u assms(6) have
    "handle_response (JObj r) st =
       Done (st\<lparr>thread_id := (if truthy (dict_get d ''thread_id'' JNull)
                                then dict_get d ''thread_id'' JNull else thread_id st),
                 scorecard_state := JObj sc',
                 messages := JArr (ms @ [chat_message ''assistant'' (JStr content)])\<rparr>)"
    by (simp add: append_message_def)
  with m show ?thesis by blast
qed

lemma other_content_appends_assistant_example:
  "dict_get outcomes_reply ''type'' JNull = JStr ''ai_message'' \<and>
   py_strip (py_lower ''Great, tell me about outcomes'') \<noteq> sentinel \<and>
   (\<exists>sc'. handle_response (JObj outcomes_reply) busy_chat =
            Done (busy_chat\<lparr>thread_id := JStr ''abc123'', scorecard_state := JObj sc',
                    messages := JArr [chat_message ''user'' (JStr ''hi''),
                                      chat_message ''assistant'' (JStr ''hello''),
                                      chat_message ''assistant''
                                        (JStr ''Great, tell me about outcomes'')]\<rparr>) \<and>
          map_of sc' ''situation'' = Some (JObj [(''team_size'', JStr ''5'')]))"
proof -
  let ?d = "[(''content'', JStr ''Great, tell me about outcomes''),
             (''thread_id'', JStr ''abc123''),
             (''situation'', JObj [(''team_size'', JStr ''5'')])]"
  let ?sc = "[(''situation'', JObj [(''team_size'', JStr ''3'')]),
              (''mission'', JObj [(''goal'', JStr ''ship'')])]"
  let ?ms = "[chat_message ''user'' (JStr ''hi''), chat_message ''assistant'' (JStr ''hello'')]"
  have h1: "dict_get outcomes_reply ''type'' JNull = JStr ''ai_message''"
    by (simp add: outcomes_reply_def dict_get_def)
  have h2: "map_of outcomes_reply ''data'' = Some (JObj ?d)"
    by (simp add: outcomes_reply_def)
  have h3: "map_of ?d ''content'' = Some (JStr ''Great, tell me about outcomes'')"
    by simp
  have "py_strip (py_lower ''Great, tell me about outcomes'') = ''great, tell me about outcomes''"
    by code_simp
  then have h4: "py_strip (py_lower ''Great, tell me about outcomes'') \<noteq> sentinel"
    by (simp add: sentinel_def)
  have h5: "scorecard_state busy_chat = JObj ?sc"
    by (simp add: busy_chat_def fresh_chat_def)
  have h6: "messages busy_chat = JArr ?ms"
    by (simp add: busy_chat_def fresh_chat_def)
  from other_content_appends_assistant [OF h1 h2 h3 h4 h5 h6] obtain sc' where
    "handle_response (JObj outcomes_reply) busy_chat =
       Done (busy_chat\<lparr>thread_id := (if truthy (dict_get ?d ''thread_id'' JNull)
                                       then dict_get ?d ''thread_id'' JNull
                                       else thread_id busy_chat),
                        scorecard_state := JObj sc',
                        messages := JArr (?ms @ [chat_message ''assistant''
                                                   (JStr ''Great, tell me about outcomes'')])\<rparr>)"
    and "\<forall>k. map_of sc' k =
           (if k \<in> set section_names \<and> truthy (dict_get ?d k JNull)
            then Some (dict_get ?d k JNull) else map_of ?sc k)"
    by blast
  then have
    "handle_response (JObj outcomes_reply) busy_chat =
            Done (busy_chat\<lparr>thread_id := JStr ''abc123'', scorecard_state := JObj sc',
                    messages := JArr [chat_message ''user'' (JStr ''hi''),
                                      chat_message ''assistant'' (JStr ''hello''),
                                      chat_message ''assistant''
                                        (JStr ''Great, tell me about outcomes'')]\<rparr>)"
    and "map_of sc' ''situation'' = Some (JObj [(''team_size'', JStr ''5'')])"
    by (simp_all add: dict_get_def section_names_def)
  with h1 h4 show ?thesis by blast
qed


subsection \<open>Thread id\<close>

text \<open>
  Claim C9. In every run of the Chat page the thread id after the run is the thread id
  before it, unless the run processed a pending message and the reply to that exchange
  carried a truthy thread id, which is then the new value. So a reply without a thread
  id, or with an empty one, leaves the stored id unchanged, and a non-empty stored id
  stays non-empty. (The Create page's submit, which starts a session, stores the id
  the user typed.)
\<close>

theorem thread_id_only_replaced_by_reply:
  assumes "chat_page st inp env = Some out"
  shows "(thread_id (state out) = thread_id st \<or>
          (\<exists>m response.
             pending_message st = Some m \<and>
             send_websocket_message ''user_message'' (job_title st) m (thread_id st) env =
               Some response \<and>
             truthy (carried_thread_id response) \<and>
             thread_id (state out) = carried_thread_id response)) \<and>
         (truthy (thread_id st) \<longrightarrow> truthy (thread_id (state out)))"
proof -
  have main: "thread_id (state out) = thread_id st \<or>
          (\<exists>m response.
             pending_message st = Some m \<and>
             send_websocket_message ''user_message'' (job_title st) m (thread_id st) env =
               Some response \<and>
             truthy (carried_thread_id response) \<and>
             thread_id (state out) = carried_thread_id response)"
  proof (cases "\<not> back_clicked inp \<and> render_top_bar (thread_id st) = None \<and>
                render_messages (messages st) = None \<and>
                \<not> (send_clicked inp \<and> user_input inp \<noteq> [] \<and> \<not> is_loading st) \<and>
                is_loading st \<and> pending_message st \<noteq> None")
    case True
    then obtain m where m: "pending_message st = Some m" by auto
    with True assms have p: "process_pending m env st = Some out"
      by (simp add: chat_page_def)
    from process_pending_Some [OF p] show ?thesis
    proof
      assume "state out = st \<and> exchanges out = []"
      then show ?thesis by simp
    next
      assume "\<exists>ms response.
            messages st = JArr ms \<and>
            send_websocket_message ''user_message'' (job_title st) m (thread_id st) env =
              Some response \<and>
            exchanges out = [ws_message ''user_message'' (job_title st) m (thread_id st)] \<and>
            (state out =
               state_of (handle_response response
                 (st\<lparr>messages := JArr (ms @ [chat_message ''user'' (JStr m)])\<rparr>)) \<or>
             state out =
               (state_of (handle_response response
                 (st\<lparr>messages := JArr (ms @ [chat_message ''user'' (JStr m)])\<rparr>)))
               \<lparr>is_loading := False, pending_message := None\<rparr>)"
      then obtain ms response where
        r: "send_websocket_message ''user_message'' (job_title st) m (thread_id st) env =
              Some response"
        and o: "thread_id (state out) =
                  thread_id (state_of (handle_response response
                    (st\<lparr>messages := JArr (ms @ [chat_message ''user'' (JStr m)])\<rparr>)))"
        by auto
      from handle_response_thread_id
             [of response "st\<lparr>messages := JArr (ms @ [chat_message ''user'' (JStr m)])\<rparr>"]
           o r m
      show ?thesis by auto
    qed
  next
    case False
    with assms have "thread_id (state out) = thread_id st"
      by (auto simp: chat_page_def split: option.splits if_splits)
    then show ?thesis by simp
  qed
  then show ?thesis by auto
qed

theorem thread_id_only_replaced_by_reply_witness:
  "chat_page (busy_chat\<lparr>is_loading := True, pending_message := Some ''more''\<rparr>) chat_idle
     (server [Recv_Frame (JObj outcomes_reply)]) =
   Some \<lparr>control = Rerun,
         state = busy_chat\<lparr>thread_id := JStr ''abc123'',
                   messages := JArr [chat_message ''user'' (JStr ''hi''),
                                     chat_message ''assistant'' (JStr ''hello''),
                                     chat_message ''user'' (JStr ''more''),
                                     chat_message ''assistant''
                                       (JStr ''Great, tell me about outcomes'')],
                   scorecard_state :=
                     JObj [(''situation'', JObj [(''team_size'', JStr ''5'')]),
                           (''mission'', JObj [(''goal'', JStr ''ship'')])]\<rparr>,
         exchanges = [ws_message ''user_message'' ''Senior Engineer'' ''more'' (JStr ''t-1'')]\<rparr> \<and>
   truthy (carried_thread_id (JObj outcomes_reply)) \<and>
   carried_thread_id (JObj outcomes_reply) = JStr ''abc123''"
proof -
  let ?st = "busy_chat\<lparr>is_loading := True, pending_message := Some ''more''\<rparr>"
  let ?env = "server [Recv_Frame (JObj outcomes_reply)]"
  let ?out = "\<lparr>control = Rerun,
         state = busy_chat\<lparr>thread_id := JStr ''abc123'',
                   messages := JArr [chat_message ''user'' (JStr ''hi''),
                                     chat_message ''assistant'' (JStr ''hello''),
                                     chat_message ''user'' (JStr ''more''),
                                     chat_message ''assistant''
                                       (JStr ''Great, tell me about outcomes'')],
                   scorecard_state :=
                     JObj [(''situation'', JObj [(''team_size'', JStr ''5'')]),
                           (''mission'', JObj [(''goal'', JStr ''ship'')])]\<rparr>,
         exchanges = [ws_message ''user_message'' ''Senior Engineer'' ''more'' (JStr ''t-1'')]\<rparr>"
  have h: "chat_page ?st chat_idle ?env = Some ?out"
    by (simp add: chat_page_def chat_idle_def busy_chat_def fresh_chat_def init_state_def
          render_top_bar_def render_messages_def chat_message_def process_pending_def
          append_message_def send_websocket_message_def server_def outcomes_reply_def
          dict_get_def dict_has_def handle_response_def placeholder_def strip_examples
          sentinel_def update_thread_id_def update_sections_def section_names_def
          set_section_def)
  have c: "carried_thread_id (JObj outcomes_reply) = JStr ''abc123''"
    by (simp add: carried_thread_id_def outcomes_reply_def dict_get_def)
  from thread_id_only_replaced_by_reply [OF h] h c show ?thesis by simp
qed


subsection \<open>Replies without the envelope\<close>

text \<open>
  Claim C10, as stated, fails on the empty object: the exchange returns \<open>{}\<close> when the
  server sends that frame and then falls silent, \<open>{}\<close> is not \<open>None\<close>, and the guard
  \<open>if response:\<close> skips it, so the log does not grow.
\<close>

theorem empty_object_reply_dropped:
  "send_websocket_message ''user_message'' ''Senior Engineer'' ''hi'' JNull
     (server [Recv_Frame (JObj []), Recv_Timeout]) = Some (JObj []) \<and>
   JObj [] \<noteq> JNull \<and>
   handle_response (JObj []) busy_chat = Done busy_chat"
  by (simp add: send_websocket_message_def server_def dict_get_def handle_response_def)

text \<open>
  Claim C10, amended. A reply that is a non-empty JSON object and is not an
  \<open>ai_message\<close> with a \<open>data\<close> key (a \<open>type\<close> of \<open>ai_message\<close> without \<open>data\<close> included)
  appends one assistant message whose content is the reply's top-level \<open>content\<close>, or
  \<open>Response received\<close> when there is none. An \<open>ai_message\<close> whose \<open>data\<close> is an object
  without \<open>content\<close> appends one assistant message \<open>Response received\<close>, after the
  thread id and section updates.
\<close>

theorem fallback_reply_appends_assistant:
  assumes "r \<noteq> []" and "messages st = JArr ms"
  shows "(\<not> (dict_get r ''type'' JNull = JStr ''ai_message'' \<and> dict_has r ''data'') \<longrightarrow>
            handle_response (JObj r) st =
              Done (st\<lparr>messages :=
                JArr (ms @ [chat_message ''assistant'' (dict_get r ''content'' placeholder)])\<rparr>)) \<and>
         (dict_get r ''type'' JNull = JStr ''ai_message'' \<and> map_of r ''data'' = Some (JObj d) \<and>
          map_of d ''content'' = None \<and> scorecard_state st = JObj sc \<longrightarrow>
            (\<exists>sc'. handle_response (JObj r) st =
               Done (st\<lparr>thread_id := (if truthy (dict_get d ''thread_id'' JNull)
                                        then dict_get d ''thread_id'' JNull else thread_id st),
                         scorecard_state := JObj sc',
                         messages := JArr (ms @ [chat_message ''assistant'' placeholder])\<rparr>)))"
proof (intro conjI impI)
  assume "\<not> (dict_get r ''type'' JNull = JStr ''ai_message'' \<and> dict_has r ''data'')"
  with assms show "handle_response (JObj r) st =
      Done (st\<lparr>messages :=
        JArr (ms @ [chat_message ''assistant'' (dict_get r ''content'' placeholder)])\<rparr>)"
    by (auto simp: handle_response_def append_message_def)
next
  assume a: "dict_get r ''type'' JNull = JStr ''ai_message'' \<and> map_of r ''data'' = Some (JObj d) \<and>
          map_of d ''content'' = None \<and> scorecard_state st = JObj sc"
  let ?st1 = "st\<lparr>thread_id := (if truthy (dict_get d ''thread_id'' JNull)
                                 then dict_get d ''thread_id'' JNull else thread_id st)\<rparr>"
  from a have c: "dict_get d ''content'' placeholder = JStr ''Response received''"
    by (simp add: dict_get_def placeholder_def)
  from a have t: "dict_get r ''type'' JNull = JStr ''ai_message''"
    and dt: "map_of r ''data'' = Some (JObj d)" by simp_all
  have h: "handle_response (JObj r) st =
             and_then (update_sections d ?st1)
               (append_message (chat_message ''assistant'' placeholder))"
    using ai_message_envelope [OF t dt c] placeholder_not_sentinel
    by (simp add: update_thread_id_eq placeholder_def)
  from a have "scorecard_state ?st1 = JObj sc" by simp
  from update_sections_dict [OF this, of d] obtain sc' where
    u: "update_sections d ?st1 = Done (?st1\<lparr>scorecard_state := JObj sc'\<rparr>)"
    by blast
  from h u assms(2) have
    "handle_response (JObj r) st =
       Done (st\<lparr>thread_id := (if truthy (dict_get d ''thread_id'' JNull)
                                then dict_get d ''thread_id'' JNull else thread_id st),
                 scorecard_state := JObj sc',
                 messages := JArr (ms @ [chat_message ''assistant'' placeholder])\<rparr>)"
    by (simp add: append_message_def)
  then show "\<exists>sc'. handle_response (JObj r) st =
       Done (st\<lparr>thread_id := (if truthy (dict_get d ''thread_id'' JNull)
                                then dict_get d ''thread_id'' JNull else thread_id st),
                 scorecard_state := JObj sc',
                 messages := JArr (ms @ [chat_message ''assistant'' placeholder])\<rparr>)"
    by blast
qed

theorem fallback_reply_appends_assistant_witness:
  "handle_response (JObj [(''content'', JStr ''legacy text'')]) fresh_chat =
     Done (fresh_chat\<lparr>messages := JArr [chat_message ''assistant'' (JStr ''legacy text'')]\<rparr>) \<and>
   handle_response (JObj [(''type'', JStr ''ai_message'')]) fresh_chat =
     Done (fresh_chat\<lparr>messages := JArr [chat_message ''assistant''
                                           (JStr ''Response received'')]\<rparr>) \<and>
   (\<exists>sc'. handle_response
            (JObj [(''type'', JStr ''ai_message''),
                   (''data'', JObj [(''thread_id'', JStr ''abc123'')])]) fresh_chat =
          Done (fresh_chat\<lparr>thread_id := JStr ''abc123'', scorecard_state := JObj sc',
                  messages := JArr [chat_message ''assistant'' (JStr ''Response received'')]\<rparr>))"
proof -
  let ?legacy = "[(''content'', JStr ''legacy text'')]"
  let ?bare = "[(''type'', JStr ''ai_message'')]"
  let ?d = "[(''thread_id'', JStr ''abc123'')]"
  let ?nocontent = "[(''type'', JStr ''ai_message''), (''data'', JObj ?d)]"
  have m: "messages fresh_chat = JArr []"
    by (simp add: fresh_chat_def init_state_def)
  have "?legacy \<noteq> []" by simp
  from fallback_reply_appends_assistant [OF this m, of "[]" "[]"]
  have a: "handle_response (JObj ?legacy) fresh_chat =
     Done (fresh_chat\<lparr>messages := JArr [chat_message ''assistant'' (JStr ''legacy text'')]\<rparr>)"
    by (simp add: dict_get_def dict_has_def)
  have "?bare \<noteq> []" by simp
  from fallback_reply_appends_assistant [OF this m, of "[]" "[]"]
  have b: "handle_response (JObj ?bare) fresh_chat =
     Done (fresh_chat\<lparr>messages := JArr [chat_message ''assistant''
                                           (JStr ''Response received'')]\<rparr>)"
    by (simp add: dict_get_def dict_has_def placeholder_def)
  have "?nocontent \<noteq> []" by simp
  from fallback_reply_appends_assistant [OF this m, of ?d "[]"]
  have c: "\<exists>sc'. handle_response (JObj ?nocontent) fresh_chat =
          Done (fresh_chat\<lparr>thread_id := JStr ''abc123'', scorecard_state := JObj sc',
                  messages := JArr [chat_message ''assistant'' (JStr ''Response received'')]\<rparr>)"
    by (simp add: dict_get_def placeholder_def fresh_chat_def init_state_def)
  from a b c show ?thesis by blast
qed

end
